theory Spec2Isabelle
  imports Main
begin

section \<open>The news reader: TTL cache and feed controller\<close>

text \<open>
  The embedded code is the news-reading screen: the class \<open>SimpleCache\<close>, its global
  instance \<open>newsCache\<close>, and the functions \<open>fetchNews\<close>, \<open>loadInitialData\<close>,
  \<open>onRefresh\<close> and \<open>loadMore\<close> of the component \<open>NewsReaderScreen\<close>.

  Time is the millisecond count that \<open>Date.now()\<close> returns. Every call of
  \<open>Date.now()\<close> is an argument of the function that makes it, so two reads inside one
  operation may differ. The answer of the remote endpoint is an argument as well.
\<close>

subsection \<open>Constants\<close>

definition CACHE_DURATION :: int where
  "CACHE_DURATION = 5 * 60 * 1000"

definition PAGE_SIZE :: nat where
  "PAGE_SIZE = 20"

subsection \<open>Data\<close>

record source =
  name :: string

record Article =
  title :: string
  description :: string
  url :: string
  urlToImage :: string
  publishedAt :: string
  source :: source
  author :: string

text \<open>\<open>NewsResponse\<close>; the optional \<open>message\<close> is present on error responses.\<close>

record NewsResponse =
  status :: string
  totalResults :: int
  resp_articles :: "Article list"
  message :: "string option"

text \<open>
  What \<open>await fetch(url)\<close> followed by \<open>await response.json()\<close> gives: either
  something throws before the filter runs (the request is rejected, the body is not
  JSON, or the decoded object has no array of articles), and the error carries a
  message, possibly empty, or a response object of the declared type is decoded.
\<close>

datatype http_result = Rejected string | Resolved NewsResponse

text \<open>An entry of the cache map: \<open>{ data, timestamp }\<close>.\<close>

record 'a cache_entry =
  data :: 'a
  timestamp :: int

type_synonym 'a cache = "string \<rightharpoonup> 'a cache_entry"

subsection \<open>SimpleCache\<close>

text \<open>
  Each method takes the map and the value of \<open>Date.now()\<close> and returns its result with
  the map it leaves behind. \<open>null\<close> is \<open>None\<close>.
\<close>

definition cache_set :: "string \<Rightarrow> 'a \<Rightarrow> int \<Rightarrow> 'a cache \<Rightarrow> 'a cache" where
  "cache_set key d now c = c(key \<mapsto> \<lparr>data = d, timestamp = now\<rparr>)"

definition cache_get :: "string \<Rightarrow> int \<Rightarrow> 'a cache \<Rightarrow> 'a option \<times> 'a cache" where
  "cache_get key now c =
     (case c key of
        None \<Rightarrow> (None, c)
      | Some cached \<Rightarrow>
          (let age = now - timestamp cached in
           if age > CACHE_DURATION then (None, c(key := None))
           else (Some (data cached), c)))"

definition cache_clear :: "'a cache \<Rightarrow> 'a cache" where
  "cache_clear c = Map.empty"

definition cache_has :: "string \<Rightarrow> int \<Rightarrow> 'a cache \<Rightarrow> bool \<times> 'a cache" where
  "cache_has key now c =
     (case c key of
        None \<Rightarrow> (False, c)
      | Some cached \<Rightarrow>
          (let age = now - timestamp cached in (age \<le> CACHE_DURATION, c)))"

subsection \<open>The component state\<close>

text \<open>
  The seven \<open>useState\<close> cells of the component, the module-level \<open>newsCache\<close>, and the
  dialogs raised through \<open>Alert.alert\<close> (title and message, oldest first).
\<close>

record world =
  articles :: "Article list"
  loading :: bool
  refreshing :: bool
  loadingMore :: bool
  page :: nat
  hasMore :: bool
  error :: "string option"
  newsCache :: "Article list cache"
  alerts :: "(string \<times> string) list"

text \<open>
  Mounting the component gives every cell its \<open>useState\<close> initial value. The cache is
  a module-level constant and outlives the component.
\<close>

definition mount :: "world \<Rightarrow> world" where
  "mount w = w\<lparr>articles := [], loading := False, refreshing := False,
               loadingMore := False, page := 1, hasMore := True, error := None\<rparr>"

text \<open>The state when the module has just been loaded and the screen is mounted first.\<close>

definition initial_world :: world where
  "initial_world = \<lparr>articles = [], loading = False, refreshing = False,
     loadingMore = False, page = 1, hasMore = True, error = None,
     newsCache = Map.empty, alerts = []\<rparr>"

subsection \<open>Cache helpers of the component\<close>

definition isCacheValid :: "int \<Rightarrow> Article list cache \<Rightarrow> bool \<times> Article list cache" where
  "isCacheValid now c = cache_has ''articles'' now c"

text \<open>\<open>newsCache.get('articles') || []\<close>: an array is truthy, also the empty one.\<close>

definition loadFromCache :: "int \<Rightarrow> Article list cache \<Rightarrow> Article list \<times> Article list cache" where
  "loadFromCache now c =
     (case cache_get ''articles'' now c of
        (None, c') \<Rightarrow> ([], c')
      | (Some d, c') \<Rightarrow> (d, c'))"

definition saveToCache :: "Article list \<Rightarrow> int \<Rightarrow> Article list cache \<Rightarrow> Article list cache" where
  "saveToCache articlesToCache now c = cache_set ''articles'' articlesToCache now c"

subsection \<open>fetchNews\<close>

text \<open>The predicate of the \<open>filter\<close> call: a string is truthy when it is not empty.\<close>

definition valid_article :: "Article \<Rightarrow> bool" where
  "valid_article article \<longleftrightarrow>
     title article \<noteq> [] \<and> description article \<noteq> [] \<and>
     title article \<noteq> ''[Removed]'' \<and> description article \<noteq> ''[Removed]''"

definition validArticles :: "Article list \<Rightarrow> Article list" where
  "validArticles as = filter valid_article as"

text \<open>\<open>a || b\<close> on a string that may be missing.\<close>

definition or_else :: "string option \<Rightarrow> string \<Rightarrow> string" where
  "or_else m d = (case m of None \<Rightarrow> d | Some s \<Rightarrow> if s = [] then d else s)"

text \<open>
  The result is \<open>Inl\<close> of the message of the error that \<open>fetchNews\<close> throws, or
  \<open>Inr\<close> of the articles it returns. \<open>now\<close> is read by \<open>saveToCache\<close> only.
\<close>

definition fetchNews ::
  "nat \<Rightarrow> bool \<Rightarrow> http_result \<Rightarrow> int \<Rightarrow> Article list cache
     \<Rightarrow> (string + Article list) \<times> Article list cache" where
  "fetchNews pageNum isRefresh res now c =
     (case res of
        Rejected msg \<Rightarrow> (Inl (or_else (Some msg) ''Network error occurred''), c)
      | Resolved d \<Rightarrow>
          if status d \<noteq> ''ok'' then
            (Inl (or_else (Some (or_else (message d) ''Failed to fetch news''))
                    ''Network error occurred''), c)
          else
            (let valid = validArticles (resp_articles d) in
             if pageNum = 1 \<and> isRefresh then (Inr valid, saveToCache valid now c)
             else (Inr valid, c)))"

subsection \<open>loadInitialData\<close>

text \<open>
  The function is cut at its \<open>await\<close>. \<open>loadInitialData_begin\<close> is what runs at
  once: the two setters, the cache check and, on a hit, the early \<open>return\<close> (with the
  \<open>finally\<close> block); its second component tells whether the request for page 1 is
  issued. \<open>loadInitialData_complete\<close> is what runs when the request settles: the
  rest of \<open>fetchNews\<close>, then the end of the \<open>try\<close> block or the \<open>catch\<close> block, then
  \<open>finally\<close>.

  \<open>t_has\<close> is the clock at \<open>isCacheValid\<close>, \<open>t_get\<close> at the \<open>loadFromCache\<close> of the
  \<open>try\<close> block, \<open>t_set\<close> at the cache write inside \<open>fetchNews\<close>, and \<open>t_fb\<close> at the
  \<open>loadFromCache\<close> of the \<open>catch\<close> block.
\<close>

definition loadInitialData_begin :: "int \<Rightarrow> int \<Rightarrow> world \<Rightarrow> world \<times> bool" where
  "loadInitialData_begin t_has t_get w =
     (let w1 = w\<lparr>loading := True, error := None\<rparr>;
          (cacheValid, c1) = isCacheValid t_has (newsCache w1);
          (cachedArticles, c2) = (if cacheValid then loadFromCache t_get c1 else ([], c1))
      in if cacheValid \<and> length cachedArticles > 0 then
           (w1\<lparr>articles := cachedArticles, page := 2, loading := False, newsCache := c2\<rparr>,
            False)
         else (w1\<lparr>newsCache := c2\<rparr>, True))"

definition loadInitialData_complete :: "http_result \<Rightarrow> int \<Rightarrow> int \<Rightarrow> world \<Rightarrow> world" where
  "loadInitialData_complete res t_set t_fb w =
     (case fetchNews 1 True res t_set (newsCache w) of
        (Inr freshArticles, c3) \<Rightarrow>
          w\<lparr>articles := freshArticles, page := 2,
             hasMore := (length freshArticles = PAGE_SIZE),
             loading := False, newsCache := c3\<rparr>
      | (Inl msg, c3) \<Rightarrow>
          (let w2 = w\<lparr>error := Some msg\<rparr>;
               (cachedArticles, c4) = loadFromCache t_fb c3;
               w3 = (if length cachedArticles > 0 then
                       w2\<lparr>articles := cachedArticles,
                          error := Some ''Showing cached articles (offline mode)''\<rparr>
                     else w2)
           in w3\<lparr>loading := False, newsCache := c4\<rparr>))"

text \<open>The whole call, when nothing else runs between the request and its answer.\<close>

definition loadInitialData ::
  "int \<Rightarrow> int \<Rightarrow> http_result \<Rightarrow> int \<Rightarrow> int \<Rightarrow> world \<Rightarrow> world" where
  "loadInitialData t_has t_get res t_set t_fb w =
     (let (w', issued) = loadInitialData_begin t_has t_get w
      in if issued then loadInitialData_complete res t_set t_fb w' else w')"

subsection \<open>onRefresh\<close>

definition onRefresh :: "http_result \<Rightarrow> int \<Rightarrow> world \<Rightarrow> world" where
  "onRefresh res t_set w =
     (let w1 = w\<lparr>refreshing := True, error := None\<rparr> in
      case fetchNews 1 True res t_set (newsCache w1) of
        (Inr freshArticles, c) \<Rightarrow>
          w1\<lparr>articles := freshArticles, page := 2,
             hasMore := (length freshArticles = PAGE_SIZE),
             refreshing := False, newsCache := c\<rparr>
      | (Inl msg, c) \<Rightarrow>
          w1\<lparr>error := Some msg, alerts := alerts w1 @ [(''Refresh Failed'', msg)],
             refreshing := False, newsCache := c\<rparr>)"

subsection \<open>loadMore\<close>

text \<open>
  \<open>loadMore\<close> is a closure made anew at every render: \<open>loadingMore\<close>, \<open>hasMore\<close> and
  \<open>page\<close> in its body are the constants of the render that made it, not the cells at
  the time of the call. So a call has two states: \<open>r\<close>, the state that was rendered
  when the closure was made, and \<open>w\<close>, the state when it is called. The setters write
  \<open>w\<close>. A call through the closure of the latest render has \<open>r = w\<close>; a call that
  comes before the component has rendered again reads an older \<open>r\<close>.

  The call runs up to its \<open>await\<close> at once: \<open>loadMore_begin\<close> is the guard and
  \<open>setLoadingMore(true)\<close>, and returns the page number of the request it issues, or
  \<open>None\<close> when it returns at the guard. \<open>loadMore_complete\<close> is the rest of the body,
  run when the request settles; the page number is the one the closure read, and the
  two functional updates read the state of that later moment.
\<close>

definition loadMore_begin :: "world \<Rightarrow> world \<Rightarrow> world \<times> nat option" where
  "loadMore_begin r w =
     (if loadingMore r \<or> \<not> hasMore r then (w, None)
      else (w\<lparr>loadingMore := True\<rparr>, Some (page r)))"

definition loadMore_complete :: "nat \<Rightarrow> http_result \<Rightarrow> int \<Rightarrow> world \<Rightarrow> world" where
  "loadMore_complete pageNum res now w =
     (case fetchNews pageNum False res now (newsCache w) of
        (Inr moreArticles, c) \<Rightarrow>
          (if length moreArticles = 0 then
             w\<lparr>hasMore := False, loadingMore := False, newsCache := c\<rparr>
           else
             w\<lparr>articles := articles w @ moreArticles, page := page w + 1,
                hasMore := (length moreArticles = PAGE_SIZE),
                loadingMore := False, newsCache := c\<rparr>)
      | (Inl msg, c) \<Rightarrow>
          w\<lparr>alerts := alerts w @ [(''Error'', ''Failed to load more articles'')],
             loadingMore := False, newsCache := c\<rparr>)"

text \<open>
  The whole call through the closure of the latest render, when nothing else runs
  between the request and its answer.
\<close>

definition loadMore :: "http_result \<Rightarrow> int \<Rightarrow> world \<Rightarrow> world" where
  "loadMore res now w =
     (case loadMore_begin w w of
        (w', None) \<Rightarrow> w'
      | (w', Some pageNum) \<Rightarrow> loadMore_complete pageNum res now w')"

subsection \<open>Sequences of operations\<close>

text \<open>
  What the presentation layer can start: the mount effect, which runs
  \<open>loadInitialData\<close> on the fresh cells, a pull to refresh, and reaching the end of the
  list. Each operation carries the answer of its request and its clock reads, is called
  through the closure of the latest render, and runs to its end before the next one
  starts.
\<close>

datatype feed_op =
    Mount int int http_result int int
  | Refresh http_result int
  | LoadMore http_result int

fun step :: "world \<Rightarrow> feed_op \<Rightarrow> world" where
  "step w (Mount t_has t_get res t_set t_fb) =
     loadInitialData t_has t_get res t_set t_fb (mount w)"
| "step w (Refresh res t_set) = onRefresh res t_set w"
| "step w (LoadMore res now) = loadMore res now w"

definition run :: "feed_op list \<Rightarrow> world \<Rightarrow> world" where
  "run ops w = foldl step w ops"

fun is_LoadMore :: "feed_op \<Rightarrow> bool" where
  "is_LoadMore (LoadMore res now) = True"
| "is_LoadMore _ = False"

text \<open>The request fails: \<open>fetchNews\<close> throws.\<close>

fun fetch_fails :: "http_result \<Rightarrow> bool" where
  "fetch_fails (Rejected msg) = True"
| "fetch_fails (Resolved d) = (status d \<noteq> ''ok'')"

text \<open>The page a successful request delivers, after the filter.\<close>

fun fetched_page :: "http_result \<Rightarrow> Article list option" where
  "fetched_page (Rejected msg) = None"
| "fetched_page (Resolved d) =
     (if status d \<noteq> ''ok'' then None else Some (validArticles (resp_articles d)))"

text \<open>The message of the error that a failing \<open>fetchNews\<close> throws.\<close>

fun thrown_message :: "http_result \<Rightarrow> string" where
  "thrown_message (Rejected msg) = or_else (Some msg) ''Network error occurred''"
| "thrown_message (Resolved d) =
     or_else (Some (or_else (message d) ''Failed to fetch news'')) ''Network error occurred''"

subsection \<open>The invariant of the cache\<close>

text \<open>Every stored payload is a list of articles that pass the filter.\<close>

definition cache_holds_valid :: "Article list cache \<Rightarrow> bool" where
  "cache_holds_valid c \<longleftrightarrow>
     (\<forall>key entry. c key = Some entry \<longrightarrow> list_all valid_article (data entry))"

subsection \<open>Concrete inputs\<close>

definition sample_article :: Article where
  "sample_article = \<lparr>title = ''Rain expected'', description = ''Showers from noon'',
     url = ''https://news.example/rain'', urlToImage = [],
     publishedAt = ''2024-05-01T08:00:00Z'', source = \<lparr>name = ''Example News''\<rparr>,
     author = ''A. Writer''\<rparr>"

definition removed_article :: Article where
  "removed_article = sample_article\<lparr>title := ''[Removed]'', description := ''[Removed]''\<rparr>"

definition numbered_articles :: "nat \<Rightarrow> Article list" where
  "numbered_articles n = map (\<lambda>i. sample_article\<lparr>author := replicate i CHR ''x''\<rparr>) [0..<n]"

definition ok_response :: "Article list \<Rightarrow> http_result" where
  "ok_response as = Resolved \<lparr>status = ''ok'', totalResults = int (length as),
     resp_articles = as, message = None\<rparr>"

definition network_down :: http_result where
  "network_down = Rejected ''Network request failed''"

text \<open>A screen showing one article, with page 2 to be loaded next.\<close>

definition ready_world :: world where
  "ready_world = initial_world\<lparr>articles := [sample_article], page := 2\<rparr>"

text \<open>A fresh screen whose cache holds one article stored at time 0.\<close>

definition cached_world :: world where
  "cached_world = initial_world\<lparr>newsCache :=
     [''articles'' \<mapsto> \<lparr>data = [sample_article], timestamp = 0\<rparr>]\<rparr>"

text \<open>A full page of twenty articles and a short page of twelve.\<close>

definition full_page :: http_result where
  "full_page = ok_response (numbered_articles 20)"

definition short_page :: http_result where
  "short_page = ok_response (numbered_articles 12)"

text \<open>The screen after its first mount, when the request delivers the full page.\<close>

definition first_screen :: world where
  "first_screen = run [Mount 0 0 full_page 1 1] initial_world"

text \<open>A page with one article that the filter keeps and one that it drops.\<close>

definition mixed_response :: http_result where
  "mixed_response = ok_response [sample_article, removed_article]"

section \<open>Properties\<close>

subsection \<open>fetchNews\<close>

lemma fetch_fails_iff: "fetch_fails res \<longleftrightarrow> fetched_page res = None"
  by (cases res) simp_all

lemma fetchNews_fails:
  "fetch_fails res \<Longrightarrow> fetchNews pageNum isRefresh res now c = (Inl (thrown_message res), c)"
  by (cases res) (simp_all add: fetchNews_def)

lemma fetchNews_page:
  "fetched_page res = Some as \<Longrightarrow>
   fetchNews pageNum isRefresh res now c =
     (Inr as, if pageNum = 1 \<and> isRefresh then saveToCache as now c else c)"
  by (cases res) (auto simp: fetchNews_def Let_def split: if_splits)

lemma fetched_page_valid: "fetched_page res = Some as \<Longrightarrow> list_all valid_article as"
  by (cases res) (auto simp: validArticles_def list_all_iff split: if_splits)

lemma validArticles_id: "list_all valid_article as \<Longrightarrow> validArticles as = as"
  by (simp add: validArticles_def list_all_iff)

lemma numbered_valid: "list_all valid_article (numbered_articles n)"
  by (simp add: numbered_articles_def list_all_iff valid_article_def sample_article_def)

lemma fetched_page_numbered:
  "fetched_page (ok_response (numbered_articles n)) = Some (numbered_articles n)"
  by (simp add: ok_response_def validArticles_id numbered_valid)

lemma length_numbered: "length (numbered_articles n) = n"
  by (simp add: numbered_articles_def)

lemma fetched_page_mixed: "fetched_page mixed_response = Some [sample_article]"
  by (simp add: mixed_response_def ok_response_def validArticles_def valid_article_def
      sample_article_def removed_article_def)

subsection \<open>The operations on a page and on a failure\<close>

lemma isCacheValid_keeps: "snd (isCacheValid now c) = c"
  by (simp add: isCacheValid_def cache_has_def Let_def split: option.splits)

lemma isCacheValid_empty: "c ''articles'' = None \<Longrightarrow> fst (isCacheValid now c) = False"
  by (simp add: isCacheValid_def cache_has_def)

lemma loadInitialData_begin_miss:
  "newsCache w ''articles'' = None \<Longrightarrow>
   loadInitialData_begin t_has t_get w = (w\<lparr>loading := True, error := None\<rparr>, True)"
  by (simp add: loadInitialData_begin_def Let_def split_beta isCacheValid_keeps isCacheValid_empty)

lemma loadInitialData_complete_page:
  "fetched_page res = Some as \<Longrightarrow>
   loadInitialData_complete res t_set t_fb w =
     w\<lparr>articles := as, page := 2, hasMore := (length as = PAGE_SIZE), loading := False,
       newsCache := saveToCache as t_set (newsCache w)\<rparr>"
  by (simp add: loadInitialData_complete_def fetchNews_page)

lemma loadInitialData_complete_fails:
  assumes "fetch_fails res"
  shows "loadInitialData_complete res t_set t_fb w =
     (let (cachedArticles, c4) = loadFromCache t_fb (newsCache w) in
      (if cachedArticles \<noteq> [] then
         w\<lparr>articles := cachedArticles, error := Some ''Showing cached articles (offline mode)''\<rparr>
       else w\<lparr>error := Some (thrown_message res)\<rparr>)\<lparr>loading := False, newsCache := c4\<rparr>)"
  using assms
  by (simp add: loadInitialData_complete_def fetchNews_fails Let_def split_beta)

lemma onRefresh_page:
  "fetched_page res = Some as \<Longrightarrow>
   onRefresh res t_set w =
     w\<lparr>refreshing := False, error := None, articles := as, page := 2,
       hasMore := (length as = PAGE_SIZE), newsCache := saveToCache as t_set (newsCache w)\<rparr>"
  by (simp add: onRefresh_def fetchNews_page Let_def)

lemma loadMore_noop: "\<not> hasMore w \<Longrightarrow> loadMore res now w = w"
  by (simp add: loadMore_def loadMore_begin_def)

lemma loadMore_short:
  assumes "fetched_page res = Some as" "length as < PAGE_SIZE" "\<not> loadingMore w"
  shows "\<not> hasMore (loadMore res now w)"
  using assms
  by (simp add: loadMore_def loadMore_begin_def loadMore_complete_def fetchNews_page)

lemma first_screen_eq:
  "first_screen = initial_world\<lparr>articles := numbered_articles 20, page := 2,
     newsCache := [''articles'' \<mapsto> \<lparr>data = numbered_articles 20, timestamp = 1\<rparr>]\<rparr>"
  by (simp add: first_screen_def full_page_def run_def mount_def initial_world_def
      loadInitialData_def loadInitialData_begin_miss loadInitialData_complete_page
      fetched_page_numbered length_numbered PAGE_SIZE_def saveToCache_def cache_set_def)

subsection \<open>The cache\<close>

text \<open>
  Claim C5. \<open>set(key, payload)\<close> at time \<open>t0\<close>, then \<open>get(key)\<close> at time \<open>t1\<close>. When
  more than the five minutes of \<open>CACHE_DURATION\<close> have passed, \<open>get\<close> returns
  \<open>null\<close> and leaves the map without the entry for \<open>key\<close>, and a \<open>has(key)\<close> after
  it, at any time \<open>t2\<close>, is false. When the age is at most \<open>CACHE_DURATION\<close>, \<open>get\<close>
  returns the stored payload and leaves the map as \<open>set\<close> left it.
\<close>

theorem cache_ttl:
  "CACHE_DURATION = 5 * 60 * 1000 \<and>
   (t1 - t0 > CACHE_DURATION \<longrightarrow>
      fst (cache_get key t1 (cache_set key payload t0 c)) = None \<and>
      snd (cache_get key t1 (cache_set key payload t0 c)) = c(key := None) \<and>
      fst (cache_has key t2 (snd (cache_get key t1 (cache_set key payload t0 c)))) = False) \<and>
   (t1 - t0 \<le> CACHE_DURATION \<longrightarrow>
      cache_get key t1 (cache_set key payload t0 c) =
        (Some payload, cache_set key payload t0 c))"
  by (simp add: cache_get_def cache_set_def cache_has_def CACHE_DURATION_def)

theorem cache_ttl_witness:
  "fst (cache_get ''articles'' 301001 (cache_set ''articles'' ''payload'' 1000 Map.empty)) = None \<and>
   snd (cache_get ''articles'' 301001 (cache_set ''articles'' ''payload'' 1000 Map.empty)) = Map.empty \<and>
   fst (cache_has ''articles'' 301002
         (snd (cache_get ''articles'' 301001 (cache_set ''articles'' ''payload'' 1000 Map.empty)))) = False \<and>
   fst (cache_get ''articles'' 301000 (cache_set ''articles'' ''payload'' 1000 Map.empty)) = Some ''payload''"
  using cache_ttl [of 301001 1000 "''articles''" "''payload''" Map.empty 301002]
        cache_ttl [of 301000 1000 "''articles''" "''payload''" Map.empty 0]
  by (simp add: CACHE_DURATION_def cache_has_def)

text \<open>
  Claim C6. For every map, key and time, \<open>has(key)\<close> is true exactly when \<open>get(key)\<close>
  at that time returns a payload, and \<open>has\<close> leaves the map as it was, expired entry
  or not.
\<close>

theorem has_iff_get_present:
  "fst (cache_has key now c) = (fst (cache_get key now c) \<noteq> None) \<and>
   snd (cache_has key now c) = c"
  by (simp add: cache_has_def cache_get_def Let_def split: option.split)

subsection \<open>The filter\<close>

text \<open>
  Claim C9. Filtering a list that the validity filter has already produced gives the
  same list.
\<close>

theorem filter_idempotent: "validArticles (validArticles as) = validArticles as"
  by (simp add: validArticles_def)

subsection \<open>The guard of loadMore\<close>

lemma loadMore_begin_blocked:
  "loadingMore r \<or> \<not> hasMore r \<Longrightarrow> loadMore_begin r w = (w, None)"
  by (simp add: loadMore_begin_def)

lemma loadMore_blocked: "loadingMore w \<or> \<not> hasMore w \<Longrightarrow> loadMore res now w = w"
  by (simp add: loadMore_def loadMore_begin_blocked)

text \<open>
  Claim C7 says that a \<open>loadMore\<close> call made while an earlier one is in flight, or
  while \<open>hasMore\<close> is false, issues no request and changes nothing. The guard stops a
  call whose closure was rendered with \<open>loadingMore\<close> set or \<open>hasMore\<close> false (the
  two lemmas above), but it reads the render of the closure, not the cells. Here the
  screen shows one article and page 2 is next. The first call sets \<open>loadingMore\<close>
  and requests page 2. A second call through the same closure, before the component
  has rendered again, passes the guard although \<open>loadingMore\<close> is set, and requests
  page 2 again; when both answers have come the page of twenty articles is in the list
  twice and the next page is 4. In the same way a call through a closure rendered
  before a short page arrived passes the guard although \<open>hasMore\<close> is false.
\<close>

theorem loadMore_second_call_fetches_again:
  "loadMore_begin ready_world ready_world = (ready_world\<lparr>loadingMore := True\<rparr>, Some 2) \<and>
   loadingMore (ready_world\<lparr>loadingMore := True\<rparr>) \<and>
   loadMore_begin ready_world (ready_world\<lparr>loadingMore := True\<rparr>)
     = (ready_world\<lparr>loadingMore := True\<rparr>, Some 2) \<and>
   articles (loadMore_complete 2 full_page 8 (loadMore_complete 2 full_page 7
       (ready_world\<lparr>loadingMore := True\<rparr>)))
     = [sample_article] @ numbered_articles 20 @ numbered_articles 20 \<and>
   page (loadMore_complete 2 full_page 8 (loadMore_complete 2 full_page 7
       (ready_world\<lparr>loadingMore := True\<rparr>))) = 4 \<and>
   hasMore (loadMore_complete 2 short_page 7 (ready_world\<lparr>loadingMore := True\<rparr>)) = False \<and>
   loadMore_begin ready_world
       (loadMore_complete 2 short_page 7 (ready_world\<lparr>loadingMore := True\<rparr>))
     = ((loadMore_complete 2 short_page 7 (ready_world\<lparr>loadingMore := True\<rparr>))
          \<lparr>loadingMore := True\<rparr>, Some 2)"
proof -
  have full: "fetched_page full_page = Some (numbered_articles 20)"
    by (simp add: full_page_def fetched_page_numbered)
  have short: "fetched_page short_page = Some (numbered_articles 12)"
    by (simp add: short_page_def fetched_page_numbered)
  have n20: "numbered_articles 20 \<noteq> []" and n12: "numbered_articles 12 \<noteq> []"
    using length_numbered [of 20] length_numbered [of 12] by auto
  show ?thesis
    using n20 n12
    by (simp add: loadMore_begin_def loadMore_complete_def fetchNews_page [OF full]
        fetchNews_page [OF short] length_numbered PAGE_SIZE_def ready_world_def
        initial_world_def)
qed

subsection \<open>Failing requests\<close>

text \<open>
  Claim C2. When the request of a refresh or of a load-more fails, the article list,
  the next page and \<open>hasMore\<close> are after the operation what they were before it. For
  load-more this holds of the whole call and of its completion alone.
\<close>

theorem failed_fetch_keeps_list:
  assumes "fetch_fails res"
  shows "articles (onRefresh res t w) = articles w \<and>
         page (onRefresh res t w) = page w \<and>
         hasMore (onRefresh res t w) = hasMore w \<and>
         articles (loadMore_complete pageNum res t w) = articles w \<and>
         page (loadMore_complete pageNum res t w) = page w \<and>
         hasMore (loadMore_complete pageNum res t w) = hasMore w \<and>
         articles (loadMore res t w) = articles w \<and>
         page (loadMore res t w) = page w \<and>
         hasMore (loadMore res t w) = hasMore w"
  using assms
  by (simp add: onRefresh_def loadMore_def loadMore_begin_def loadMore_complete_def
      fetchNews_fails Let_def)

theorem failed_fetch_keeps_list_witness:
  "fetch_fails network_down \<and>
   articles (onRefresh network_down 5 ready_world) = [sample_article] \<and>
   page (onRefresh network_down 5 ready_world) = 2 \<and>
   hasMore (onRefresh network_down 5 ready_world) \<and>
   articles (loadMore network_down 5 ready_world) = [sample_article] \<and>
   page (loadMore network_down 5 ready_world) = 2 \<and>
   hasMore (loadMore network_down 5 ready_world)"
  using failed_fetch_keeps_list [of network_down 5 ready_world 2]
  by (simp add: network_down_def ready_world_def initial_world_def)

subsection \<open>The initial load\<close>

text \<open>
  Claim C4. The cache is empty and the request of the initial load delivers exactly 20
  articles, all of which pass the filter. Afterwards the displayed list is those 20
  articles, the next page is 2, \<open>hasMore\<close> is true and the cache holds those 20
  articles under \<open>'articles'\<close>, stamped with the time of the write; a refresh with the
  same answer leaves the same cache.
\<close>

theorem initial_load_full_page:
  assumes "newsCache w = Map.empty"
      and "status d = ''ok''"
      and "list_all valid_article (resp_articles d)"
      and "length (resp_articles d) = 20"
  shows "articles (loadInitialData t_has t_get (Resolved d) t_set t_fb w) = resp_articles d \<and>
         page (loadInitialData t_has t_get (Resolved d) t_set t_fb w) = 2 \<and>
         hasMore (loadInitialData t_has t_get (Resolved d) t_set t_fb w) = True \<and>
         newsCache (loadInitialData t_has t_get (Resolved d) t_set t_fb w) =
           [''articles'' \<mapsto> \<lparr>data = resp_articles d, timestamp = t_set\<rparr>] \<and>
         newsCache (onRefresh (Resolved d) t_set w) =
           [''articles'' \<mapsto> \<lparr>data = resp_articles d, timestamp = t_set\<rparr>]"
proof -
  have "fetched_page (Resolved d) = Some (resp_articles d)"
    using assms(2,3) by (simp add: validArticles_id)
  then show ?thesis
    using assms(1,4)
    by (simp add: loadInitialData_def loadInitialData_begin_miss loadInitialData_complete_page
        onRefresh_page saveToCache_def cache_set_def PAGE_SIZE_def)
qed

theorem initial_load_full_page_witness:
  "newsCache initial_world = Map.empty \<and>
   length (numbered_articles 20) = 20 \<and>
   list_all valid_article (numbered_articles 20) \<and>
   articles (loadInitialData 7 7 (ok_response (numbered_articles 20)) 9 9 initial_world)
     = numbered_articles 20 \<and>
   page (loadInitialData 7 7 (ok_response (numbered_articles 20)) 9 9 initial_world) = 2 \<and>
   hasMore (loadInitialData 7 7 (ok_response (numbered_articles 20)) 9 9 initial_world) \<and>
   newsCache (loadInitialData 7 7 (ok_response (numbered_articles 20)) 9 9 initial_world)
     = [''articles'' \<mapsto> \<lparr>data = numbered_articles 20, timestamp = 9\<rparr>]"
  using initial_load_full_page [of initial_world
      "\<lparr>status = ''ok'', totalResults = int (length (numbered_articles 20)),
        resp_articles = numbered_articles 20, message = None\<rparr>" 7 7 9 9]
    numbered_valid [of 20] length_numbered [of 20]
  by (simp add: ok_response_def initial_world_def)

text \<open>
  Claim C10. The cache entry under \<open>'articles'\<close> is within its time to live at both
  reads and holds a non-empty list, of any length. Then the initial load issues no
  request and changes the displayed list and the next page, besides leaving \<open>loading\<close>
  false and \<open>error\<close> empty; \<open>hasMore\<close> keeps its prior value. On a fresh mount the
  result differs from the mounted state in the list and the page only, \<open>hasMore\<close> is
  true, and the next \<open>loadMore\<close> call, through the closure rendered from that result,
  requests page 2.
\<close>

theorem cached_initial_load_keeps_hasMore:
  assumes "newsCache w ''articles'' = Some entry"
      and "data entry \<noteq> []"
      and "t_has - timestamp entry \<le> CACHE_DURATION"
      and "t_get - timestamp entry \<le> CACHE_DURATION"
  shows "loadInitialData_begin t_has t_get w =
           (w\<lparr>articles := data entry, page := 2, loading := False, error := None\<rparr>, False) \<and>
         loadInitialData t_has t_get res t_set t_fb w =
           w\<lparr>articles := data entry, page := 2, loading := False, error := None\<rparr> \<and>
         hasMore (loadInitialData t_has t_get res t_set t_fb w) = hasMore w \<and>
         loadInitialData t_has t_get res t_set t_fb (mount w) =
           (mount w)\<lparr>articles := data entry, page := 2\<rparr> \<and>
         hasMore (loadInitialData t_has t_get res t_set t_fb (mount w)) = True \<and>
         snd (loadMore_begin (loadInitialData t_has t_get res t_set t_fb (mount w))
                (loadInitialData t_has t_get res t_set t_fb (mount w))) = Some 2"
  using assms
  by (simp add: loadInitialData_def loadInitialData_begin_def isCacheValid_def cache_has_def
      loadFromCache_def cache_get_def mount_def loadMore_begin_def Let_def)

theorem cached_initial_load_keeps_hasMore_witness:
  "newsCache cached_world ''articles'' = Some \<lparr>data = [sample_article], timestamp = 0\<rparr> \<and>
   length [sample_article] < PAGE_SIZE \<and>
   (60000::int) - 0 \<le> CACHE_DURATION \<and>
   loadInitialData 60000 60000 network_down 60000 60000 (mount cached_world) =
     (mount cached_world)\<lparr>articles := [sample_article], page := 2\<rparr> \<and>
   hasMore (loadInitialData 60000 60000 network_down 60000 60000 (mount cached_world)) \<and>
   snd (loadMore_begin (loadInitialData 60000 60000 network_down 60000 60000 (mount cached_world))
          (loadInitialData 60000 60000 network_down 60000 60000 (mount cached_world)))
     = Some 2"
  using cached_initial_load_keeps_hasMore [of cached_world
      "\<lparr>data = [sample_article], timestamp = 0\<rparr>" 60000 60000 network_down 60000 60000]
  by (auto simp: cached_world_def initial_world_def CACHE_DURATION_def PAGE_SIZE_def mount_def)

subsection \<open>The fallback read of the initial load\<close>

text \<open>
  With a clock that does not run backwards between the cache check and the fallback
  read, a failed request of the initial load never takes the branch that displays the
  cached list: whatever the cache holds, the list stays what it was and the error is
  the message of the failed request. An entry that would pass the freshness check at
  the fallback read, with a non-empty list, has already been served without a request.
\<close>

lemma fallback_never_serves:
  assumes "fetch_fails res" and "t_has \<le> t_fb"
      and "snd (loadInitialData_begin t_has t_get w)"
  shows "articles (loadInitialData t_has t_get res t_set t_fb w) = articles w \<and>
         error (loadInitialData t_has t_get res t_set t_fb w) = Some (thrown_message res)"
  using assms
  by (auto simp: loadInitialData_def loadInitialData_begin_def loadInitialData_complete_fails
      isCacheValid_def cache_has_def loadFromCache_def cache_get_def Let_def split_beta
      split: option.splits if_splits)

text \<open>
  Claim C1 says that the fallback read of a failed initial load does not apply the
  freshness check, so that a stale non-empty cached list is displayed under the banner
  \<open>'Showing cached articles (offline mode)'\<close>. The \<open>catch\<close> block reads through
  \<open>loadFromCache\<close>, that is through \<open>get\<close>, which applies the check and deletes the
  entry. Here the cache holds one article stored 400 seconds ago and the request
  fails: the displayed list is empty, not the cached list, the error is the message of
  the failure, not the banner, and the entry is gone from the cache.
\<close>

theorem stale_fallback_not_served:
  "fetch_fails network_down \<and>
   newsCache cached_world ''articles'' = Some \<lparr>data = [sample_article], timestamp = 0\<rparr> \<and>
   articles (loadInitialData 400000 400000 network_down 400000 400000 cached_world)
     \<noteq> [sample_article] \<and>
   error (loadInitialData 400000 400000 network_down 400000 400000 cached_world)
     \<noteq> Some ''Showing cached articles (offline mode)'' \<and>
   articles (loadInitialData 400000 400000 network_down 400000 400000 cached_world) = [] \<and>
   error (loadInitialData 400000 400000 network_down 400000 400000 cached_world)
     = Some ''Network request failed'' \<and>
   newsCache (loadInitialData 400000 400000 network_down 400000 400000 cached_world) = Map.empty"
  by (simp add: network_down_def cached_world_def initial_world_def loadInitialData_def
      loadInitialData_begin_def loadInitialData_complete_def isCacheValid_def cache_has_def
      loadFromCache_def cache_get_def fetchNews_def or_else_def CACHE_DURATION_def Let_def)

subsection \<open>What the cache stores\<close>

lemma cache_get_keeps_valid:
  "cache_holds_valid c \<Longrightarrow> cache_holds_valid (snd (cache_get key now c))"
  by (auto simp: cache_holds_valid_def cache_get_def Let_def split: option.splits if_splits)

lemma loadFromCache_keeps_valid:
  "cache_holds_valid c \<Longrightarrow> cache_holds_valid (snd (loadFromCache now c))"
  using cache_get_keeps_valid [of c "''articles''" now]
  by (simp add: loadFromCache_def split_beta split: option.splits)

lemma saveToCache_keeps_valid:
  "cache_holds_valid c \<Longrightarrow> list_all valid_article as \<Longrightarrow> cache_holds_valid (saveToCache as now c)"
  by (simp add: cache_holds_valid_def saveToCache_def cache_set_def)

lemma fetchNews_keeps_valid:
  assumes "cache_holds_valid c"
  shows "cache_holds_valid (snd (fetchNews pageNum isRefresh res now c))"
proof (cases "fetched_page res")
  case None
  then have "fetch_fails res" by (simp add: fetch_fails_iff)
  with assms show ?thesis by (simp add: fetchNews_fails)
next
  case (Some as)
  with assms show ?thesis
    by (simp add: fetchNews_page saveToCache_keeps_valid fetched_page_valid)
qed

lemma loadInitialData_begin_keeps_valid:
  assumes "cache_holds_valid (newsCache w)"
  shows "cache_holds_valid (newsCache (fst (loadInitialData_begin t_has t_get w)))"
  using assms loadFromCache_keeps_valid [OF assms, of t_get]
  by (simp add: loadInitialData_begin_def Let_def split_beta isCacheValid_keeps)

lemma loadInitialData_complete_keeps_valid:
  assumes "cache_holds_valid (newsCache w)"
  shows "cache_holds_valid (newsCache (loadInitialData_complete res t_set t_fb w))"
proof -
  have c3: "cache_holds_valid (snd (fetchNews 1 True res t_set (newsCache w)))"
    using assms by (rule fetchNews_keeps_valid)
  then have "cache_holds_valid
      (snd (loadFromCache t_fb (snd (fetchNews 1 True res t_set (newsCache w)))))"
    by (rule loadFromCache_keeps_valid)
  with c3 show ?thesis
    by (simp add: loadInitialData_complete_def Let_def split_beta split: sum.splits)
qed

lemma loadInitialData_keeps_valid:
  assumes "cache_holds_valid (newsCache w)"
  shows "cache_holds_valid (newsCache (loadInitialData t_has t_get res t_set t_fb w))"
  using loadInitialData_begin_keeps_valid [OF assms, of t_has t_get]
  by (simp add: loadInitialData_def split_beta loadInitialData_complete_keeps_valid)

lemma onRefresh_keeps_valid:
  assumes "cache_holds_valid (newsCache w)"
  shows "cache_holds_valid (newsCache (onRefresh res t_set w))"
  using fetchNews_keeps_valid [OF assms, of 1 True res t_set]
  by (simp add: onRefresh_def Let_def split_beta split: sum.splits)

lemma loadMore_keeps_valid:
  assumes "cache_holds_valid (newsCache w)"
  shows "cache_holds_valid (newsCache (loadMore res now w))"
  using fetchNews_keeps_valid [OF assms, of "page w" False res now] assms
  by (simp add: loadMore_def loadMore_begin_def loadMore_complete_def split_beta
      split: sum.splits)

lemma step_keeps_valid:
  "cache_holds_valid (newsCache w) \<Longrightarrow> cache_holds_valid (newsCache (step w op))"
  by (cases op)
     (simp_all add: loadInitialData_keeps_valid onRefresh_keeps_valid loadMore_keeps_valid
        mount_def)

lemma run_keeps_valid:
  "cache_holds_valid (newsCache w) \<Longrightarrow> cache_holds_valid (newsCache (run ops w))"
  unfolding run_def
  by (induction ops arbitrary: w) (simp_all add: step_keeps_valid)

lemma mixed_run:
  "newsCache (run [Mount 0 0 mixed_response 1 1] initial_world) ''articles''
     = Some \<lparr>data = [sample_article], timestamp = 1\<rparr>"
  by (simp add: run_def mount_def initial_world_def loadInitialData_def
      loadInitialData_begin_miss loadInitialData_complete_page fetched_page_mixed
      saveToCache_def cache_set_def)

text \<open>
  Claim C8. In every state reached from the first mount by mounts, refreshes and
  load-mores, every article of every payload stored in the cache has a non-empty title
  and a non-empty description, and neither of the two is \<open>'[Removed]'\<close>.
\<close>

theorem cache_only_valid:
  assumes "newsCache (run ops initial_world) key = Some entry"
      and "a \<in> set (data entry)"
  shows "title a \<noteq> [] \<and> description a \<noteq> [] \<and>
         title a \<noteq> ''[Removed]'' \<and> description a \<noteq> ''[Removed]''"
proof -
  have "cache_holds_valid (newsCache initial_world)"
    by (simp add: cache_holds_valid_def initial_world_def)
  then have "cache_holds_valid (newsCache (run ops initial_world))"
    by (rule run_keeps_valid)
  with assms have "valid_article a"
    by (auto simp: cache_holds_valid_def list_all_iff)
  then show ?thesis by (simp add: valid_article_def)
qed

text \<open>
  The first mount receives a page with a valid article and a removed one; the cache
  stores the valid one alone.
\<close>

theorem cache_only_valid_witness:
  "newsCache (run [Mount 0 0 mixed_response 1 1] initial_world) ''articles''
     = Some \<lparr>data = [sample_article], timestamp = 1\<rparr> \<and>
   sample_article \<in> set (data \<lparr>data = [sample_article], timestamp = 1\<rparr>) \<and>
   title sample_article \<noteq> [] \<and> description sample_article \<noteq> [] \<and>
   title sample_article \<noteq> ''[Removed]'' \<and> description sample_article \<noteq> ''[Removed]''"
  using cache_only_valid [OF mixed_run, of sample_article] mixed_run
  by simp

subsection \<open>The end of the data\<close>

lemma loadMores_noop:
  "\<not> hasMore w \<Longrightarrow> \<forall>op \<in> set later. is_LoadMore op \<Longrightarrow> run later w = w"
  unfolding run_def
proof (induction later arbitrary: w)
  case Nil
  then show ?case by simp
next
  case (Cons op later)
  from Cons.prems obtain res now where op: "op = LoadMore res now"
    by (cases op) auto
  with Cons.prems have "step w op = w" by (simp add: loadMore_noop)
  with Cons show ?case by simp
qed

lemma step_loadingMore: "\<not> loadingMore w \<Longrightarrow> \<not> loadingMore (step w op)"
proof (cases op)
  case (Mount t_has t_get res t_set t_fb)
  then show ?thesis
    by (simp add: loadInitialData_def loadInitialData_begin_def loadInitialData_complete_def
        mount_def Let_def split_beta split: sum.splits)
next
  case (Refresh res t)
  assume "\<not> loadingMore w"
  with Refresh show ?thesis
    by (simp add: onRefresh_def Let_def split_beta split: sum.splits)
next
  case (LoadMore res t)
  assume "\<not> loadingMore w"
  with LoadMore show ?thesis
    by (simp add: loadMore_def loadMore_begin_def loadMore_complete_def split_beta
        split: sum.splits)
qed

lemma run_loadingMore: "\<not> loadingMore w \<Longrightarrow> \<not> loadingMore (run ops w)"
  unfolding run_def
  by (induction ops arbitrary: w) (simp_all add: step_loadingMore)

text \<open>
  Claim C3, as the code has it. Whichever operation receives a page of fewer than 20
  articles after the filter (the completion of a load-more, a refresh, the completion of
  an initial load), in whatever state the answer arrives, it leaves \<open>hasMore\<close> false;
  and a load-more called through a closure rendered with \<open>hasMore\<close> false issues no
  request and changes nothing. When operations do not overlap, each being called
  through the closure of the latest render and running to its end before the next one
  is called, then in every state reached from the first mount \<open>hasMore\<close> is still
  false after any number of load-mores that follow the short page, whatever their
  requests would deliver, and an operation that takes \<open>hasMore\<close> from false to true is
  not a load-more: it is a refresh or a mount.
\<close>

theorem hasMore_latch:
  assumes "fetched_page res = Some as" and "length as < PAGE_SIZE"
      and "w = run ops initial_world"
      and "\<forall>op \<in> set later. is_LoadMore op"
  shows "PAGE_SIZE = 20 \<and>
         hasMore (run later (step w (LoadMore res t))) = False \<and>
         hasMore (run later (step w (Refresh res t))) = False \<and>
         (snd (loadInitialData_begin t_has t_get (mount w)) \<longrightarrow>
            hasMore (run later (step w (Mount t_has t_get res t_set t_fb))) = False) \<and>
         (\<forall>v op. \<not> hasMore v \<and> hasMore (step v op) \<longrightarrow> \<not> is_LoadMore op) \<and>
         (\<forall>v pageNum. hasMore (loadMore_complete pageNum res t v) = False) \<and>
         (\<forall>v. hasMore (onRefresh res t v) = False) \<and>
         (\<forall>v. hasMore (loadInitialData_complete res t_set t_fb v) = False) \<and>
         (\<forall>r v. \<not> hasMore r \<longrightarrow> loadMore_begin r v = (v, None))"
proof -
  have "\<not> loadingMore w"
    using assms(3) by (simp add: run_loadingMore initial_world_def)
  then have 1: "\<not> hasMore (step w (LoadMore res t))"
    using assms(1,2) by (simp add: loadMore_short)
  have 2: "\<not> hasMore (step w (Refresh res t))"
    using assms(1,2) by (simp add: onRefresh_page)
  have 3: "\<not> hasMore (step w (Mount t_has t_get res t_set t_fb))"
    if "snd (loadInitialData_begin t_has t_get (mount w))"
    using assms(1,2) that
    by (simp add: loadInitialData_def split_beta loadInitialData_complete_page)
  have 4: "\<not> is_LoadMore op" if "\<not> hasMore v" "hasMore (step v op)" for v op
    using that by (cases op) (auto simp: loadMore_noop)
  have 5: "\<not> hasMore (loadMore_complete pageNum res t v)" for v pageNum
    using assms(1,2) by (simp add: loadMore_complete_def fetchNews_page)
  have 6: "\<not> hasMore (onRefresh res t v)" for v
    using assms(1,2) by (simp add: onRefresh_page)
  have 7: "\<not> hasMore (loadInitialData_complete res t_set t_fb v)" for v
    using assms(1,2) by (simp add: loadInitialData_complete_page)
  have 8: "loadMore_begin r v = (v, None)" if "\<not> hasMore r" for r v
    using that by (simp add: loadMore_begin_blocked)
  have seq: "hasMore (run later (step w (LoadMore res t))) = False \<and>
         hasMore (run later (step w (Refresh res t))) = False \<and>
         (snd (loadInitialData_begin t_has t_get (mount w)) \<longrightarrow>
            hasMore (run later (step w (Mount t_has t_get res t_set t_fb))) = False)"
    using 1 2 3 assms(4) by (auto simp: loadMores_noop)
  have size: "PAGE_SIZE = 20"
    by (simp add: PAGE_SIZE_def)
  from 4 have only: "\<forall>v op. \<not> hasMore v \<and> hasMore (step v op) \<longrightarrow> \<not> is_LoadMore op"
    by blast
  from size seq only 5 6 7 8 show ?thesis
    by blast
qed

text \<open>
  After a first mount with a full page \<open>hasMore\<close> is true. A load-more that receives
  twelve articles sets it to false; two more load-mores, both of which would receive
  full pages, leave it false; a refresh with a full page sets it back to true.
\<close>

theorem hasMore_latch_witness:
  "fetched_page short_page = Some (numbered_articles 12) \<and>
   length (numbered_articles 12) < PAGE_SIZE \<and>
   hasMore first_screen \<and>
   \<not> hasMore (step first_screen (LoadMore short_page 2)) \<and>
   \<not> hasMore (run [LoadMore full_page 3, LoadMore full_page 4]
                (step first_screen (LoadMore short_page 2))) \<and>
   \<not> hasMore (step first_screen (Refresh short_page 2)) \<and>
   hasMore (step (step first_screen (LoadMore short_page 2)) (Refresh full_page 5))"
proof -
  have delivered: "fetched_page short_page = Some (numbered_articles 12)"
    by (simp add: short_page_def fetched_page_numbered)
  have short: "length (numbered_articles 12) < PAGE_SIZE"
    by (simp add: length_numbered PAGE_SIZE_def)
  have reach: "first_screen = run [Mount 0 0 full_page 1 1] initial_world"
    by (simp add: first_screen_def)
  have loads: "\<forall>op \<in> set [LoadMore full_page 3, LoadMore full_page 4]. is_LoadMore op"
    by simp
  have none: "\<forall>op \<in> set []. is_LoadMore op"
    by simp
  have reset: "hasMore (step (step first_screen (LoadMore short_page 2)) (Refresh full_page 5))"
    by (simp add: onRefresh_page full_page_def fetched_page_numbered length_numbered
        PAGE_SIZE_def)
  have start: "hasMore first_screen"
    by (simp add: first_screen_eq initial_world_def)
  from hasMore_latch [OF delivered short reach loads, of 2 0 0 0 0]
  have stays: "\<not> hasMore (run [LoadMore full_page 3, LoadMore full_page 4]
                  (step first_screen (LoadMore short_page 2)))"
    by blast
  from hasMore_latch [OF delivered short reach none, of 2 0 0 0 0]
  have sets: "\<not> hasMore (step first_screen (LoadMore short_page 2)) \<and>
              \<not> hasMore (step first_screen (Refresh short_page 2))"
    by (simp add: run_def)
  from delivered short start stays sets reset show ?thesis
    by blast
qed

text \<open>
  As the specification words it, for every sequence of operations, the statement
  fails when operations overlap. From the first screen a load-more is called and
  requests page 2. While it is in flight a refresh receives twelve articles and sets
  \<open>hasMore\<close> to false. Then the answer of the load-more arrives with twenty
  articles: its completion writes \<open>hasMore\<close> from its own page, and \<open>hasMore\<close>
  is true again without a refresh or a mount.
\<close>

theorem late_loadMore_sets_hasMore:
  "snd (loadMore_begin first_screen first_screen) = Some 2 \<and>
   hasMore (onRefresh short_page 5 (fst (loadMore_begin first_screen first_screen))) = False \<and>
   hasMore (loadMore_complete 2 full_page 9
     (onRefresh short_page 5 (fst (loadMore_begin first_screen first_screen)))) = True"
proof -
  have full: "fetched_page full_page = Some (numbered_articles 20)"
    by (simp add: full_page_def fetched_page_numbered)
  have short: "fetched_page short_page = Some (numbered_articles 12)"
    by (simp add: short_page_def fetched_page_numbered)
  have n20: "numbered_articles 20 \<noteq> []"
    using length_numbered [of 20] by auto
  show ?thesis
    using n20
    by (simp add: loadMore_begin_def loadMore_complete_def onRefresh_page [OF short]
        fetchNews_page [OF full] length_numbered PAGE_SIZE_def first_screen_eq
        initial_world_def)
qed

end
